theory Spec2Isabelle
  imports Complex_Main
begin

section \<open>Constant and identity initializers of chainer (chainer/initializers/constant.py)\<close>

text \<open>
  The module defines five initializers: \<open>Identity\<close>, \<open>Constant\<close>, \<open>Zero\<close>, \<open>One\<close> and
  \<open>NaN\<close>. Each is an object that is called on an allocated array and overwrites the
  array in place. This theory embeds the two \<open>__call__\<close> methods and the constructors,
  with the array backend (numpy and its device counterparts) modelled as far as the
  module uses it: array creation, multiplication by a scalar, and assignment with
  broadcasting and conversion to the array's element type.
\<close>

subsection \<open>Element values\<close>

text \<open>
  An array element is a floating-point number: a finite value, held as the real number
  it denotes, or one of the special values of IEEE arithmetic. The sign of zero is not
  kept (\<open>-0.0 == 0.0\<close> in Python).
\<close>

datatype scalar = Finite real | PosInf | NegInf | NotANumber

fun isnan :: "scalar \<Rightarrow> bool" where
  "isnan NotANumber = True"
| "isnan _ = False"

text \<open>
  The exact product of two values: a product with NaN is NaN, zero times an infinity is
  NaN, and an infinity times a non-zero value is an infinity of the product's sign.
\<close>

fun multiply_scalar :: "scalar \<Rightarrow> scalar \<Rightarrow> scalar" where
  "multiply_scalar NotANumber _ = NotANumber"
| "multiply_scalar _ NotANumber = NotANumber"
| "multiply_scalar (Finite x) (Finite y) = Finite (x * y)"
| "multiply_scalar (Finite x) PosInf =
     (if x = 0 then NotANumber else if 0 < x then PosInf else NegInf)"
| "multiply_scalar (Finite x) NegInf =
     (if x = 0 then NotANumber else if 0 < x then NegInf else PosInf)"
| "multiply_scalar PosInf (Finite y) =
     (if y = 0 then NotANumber else if 0 < y then PosInf else NegInf)"
| "multiply_scalar NegInf (Finite y) =
     (if y = 0 then NotANumber else if 0 < y then NegInf else PosInf)"
| "multiply_scalar PosInf PosInf = PosInf"
| "multiply_scalar PosInf NegInf = NegInf"
| "multiply_scalar NegInf PosInf = NegInf"
| "multiply_scalar NegInf NegInf = PosInf"

subsection \<open>Element types and the conversion to one\<close>

text \<open>
  The element types of the model are the three binary floating-point formats of the
  parameter arrays that chainer initializes. A format has a precision \<open>p\<close> (the bits of
  the significand) and a largest exponent; its finite values are the numbers
  \<open>m * 2 ^ e\<close> with an integer \<open>\<bar>m\<bar> < 2 ^ p\<close> and \<open>e\<close> between the exponent of the
  smallest subnormal and that of the last place of the largest value. An array of an
  integer or boolean element type is not a value of the model.
\<close>

datatype dtype = Float16 | Float32 | Float64

fun precision :: "dtype \<Rightarrow> nat" where
  "precision Float16 = 11"
| "precision Float32 = 24"
| "precision Float64 = 53"

fun max_exponent :: "dtype \<Rightarrow> int" where
  "max_exponent Float16 = 15"
| "max_exponent Float32 = 127"
| "max_exponent Float64 = 1023"

definition min_ulp_exponent :: "dtype \<Rightarrow> int" where
  "min_ulp_exponent dt = 2 - max_exponent dt - int (precision dt)"

definition max_ulp_exponent :: "dtype \<Rightarrow> int" where
  "max_ulp_exponent dt = max_exponent dt + 1 - int (precision dt)"

definition representable :: "dtype \<Rightarrow> real \<Rightarrow> bool" where
  "representable dt r =
     list_ex (\<lambda>e. \<bar>r / 2 powi e\<bar> < 2 ^ precision dt \<and> of_int \<lfloor>r / 2 powi e\<rfloor> = r / 2 powi e)
       [min_ulp_exponent dt .. max_ulp_exponent dt]"

text \<open>
  Rounding to the nearest value of the format, a tie to the even significand. The
  exponent of the last place is the least one of the format at which the significand
  fits; a value for which there is none, or whose significand is rounded up at the
  largest exponent, overflows to the infinity of its sign.
\<close>

definition round_half_even :: "real \<Rightarrow> int" where
  "round_half_even q =
     (let f = \<lfloor>q\<rfloor>; d = q - of_int f
      in if d < 1 / 2 then f else if 1 / 2 < d then f + 1 else if even f then f else f + 1)"

definition overflow_to :: "real \<Rightarrow> scalar" where
  "overflow_to r = (if 0 < r then PosInf else NegInf)"

definition round_nearest_even :: "dtype \<Rightarrow> real \<Rightarrow> scalar" where
  "round_nearest_even dt r =
     (case List.find (\<lambda>e. \<bar>r\<bar> < 2 powi (int (precision dt) + e))
             [min_ulp_exponent dt .. max_ulp_exponent dt] of
        None \<Rightarrow> overflow_to r
      | Some e \<Rightarrow>
          (let m = round_half_even (r / 2 powi e)
           in if \<bar>m\<bar> = 2 ^ precision dt \<and> e = max_ulp_exponent dt then overflow_to r
              else Finite (of_int m * 2 powi e)))"

text \<open>
  The conversion of a value to an element type, which the backend applies to every
  value it stores in an array: a value of the format is kept, another finite value is
  rounded, and the special values are values of every format.
\<close>

fun astype :: "dtype \<Rightarrow> scalar \<Rightarrow> scalar" where
  "astype dt (Finite r) = (if representable dt r then Finite r else round_nearest_even dt r)"
| "astype dt PosInf = PosInf"
| "astype dt NegInf = NegInf"
| "astype dt NotANumber = NotANumber"

text \<open>The element type represents the value exactly.\<close>

fun holds_exactly :: "dtype \<Rightarrow> scalar \<Rightarrow> bool" where
  "holds_exactly dt (Finite r) = representable dt r"
| "holds_exactly dt PosInf = True"
| "holds_exactly dt NegInf = True"
| "holds_exactly dt NotANumber = True"

subsection \<open>Arrays\<close>

text \<open>
  An array has a shape, an element type, a device it resides on, and its elements in
  row-major order.
\<close>

datatype device = CpuDevice | GpuDevice nat

record ndarray =
  shape :: "nat list"
  dtype :: dtype
  device :: device
  data :: "scalar list"

text \<open>
  The right-hand side of an assignment is read for its shape and its elements only, so
  the model keeps these and the device it was created on. Its elements are converted
  when they are stored.
\<close>

record operand =
  odevice :: device
  oshape :: "nat list"
  odata :: "scalar list"

definition operand_of :: "ndarray \<Rightarrow> operand" where
  "operand_of x = \<lparr>odevice = device x, oshape = shape x, odata = data x\<rparr>"

definition well_formed :: "ndarray \<Rightarrow> bool" where
  "well_formed x = (length (data x) = prod_list (shape x))"

text \<open>Row-major indexing: the multi-index of a flat position and back.\<close>

fun unravel :: "nat list \<Rightarrow> nat \<Rightarrow> nat list" where
  "unravel [] k = []"
| "unravel (d # ds) k = (k div prod_list ds) # unravel ds (k mod prod_list ds)"

fun ravel :: "nat list \<Rightarrow> nat list \<Rightarrow> nat" where
  "ravel (d # ds) (i # js) = i * prod_list ds + ravel ds js"
| "ravel _ _ = 0"

fun in_range :: "nat list \<Rightarrow> nat list \<Rightarrow> bool" where
  "in_range [] [] = True"
| "in_range (d # ds) (i # js) = (i < d \<and> in_range ds js)"
| "in_range _ _ = False"

text \<open>\<open>getitem a [i, j]\<close> is Python's \<open>a[i][j]\<close> (and \<open>a[i, j]\<close>).\<close>

definition getitem :: "ndarray \<Rightarrow> nat list \<Rightarrow> scalar" where
  "getitem a idx = data a ! ravel (shape a) idx"

subsection \<open>Broadcasting\<close>

text \<open>
  numpy's rule: the shapes are aligned at their last axes; the source may have fewer
  axes than the target, and each of its axes has the target's length or length 1. An
  axis of length 1 is read at position 0 for every position of the target.
\<close>

definition broadcastable :: "nat list \<Rightarrow> nat list \<Rightarrow> bool" where
  "broadcastable src dst =
     (length src \<le> length dst \<and>
      list_all2 (\<lambda>s d. s = d \<or> s = 1) src (drop (length dst - length src) dst))"

definition broadcast_index :: "nat list \<Rightarrow> nat list \<Rightarrow> nat list" where
  "broadcast_index src idx =
     map2 (\<lambda>s i. if s = 1 then 0 else i) src (drop (length idx - length src) idx)"

definition broadcast_to :: "operand \<Rightarrow> nat list \<Rightarrow> scalar list" where
  "broadcast_to v dst =
     map (\<lambda>k. odata v ! ravel (oshape v) (broadcast_index (oshape v) (unravel dst k)))
       [0 ..< prod_list dst]"

text \<open>
  An assignment first strips axes of length 1 from the left of a source that has more
  axes than the target (numpy's array assignment, for backwards compatibility).
\<close>

fun strip_unit_axes :: "nat \<Rightarrow> nat list \<Rightarrow> nat list" where
  "strip_unit_axes k [] = []"
| "strip_unit_axes k (s # ss) =
     (if k < length (s # ss) \<and> s = 1 then strip_unit_axes k ss else s # ss)"

subsection \<open>Errors and the outcome of a call\<close>

text \<open>
  A call either raises or returns \<open>None\<close>; the model gives the outcome together with
  the array as the call leaves it, so that what a failed call did to the array is
  part of the result.
\<close>

datatype error = AssertionError | ValueError string | TypeError string | OverflowError string

type_synonym outcome = "(error + unit) \<times> ndarray"

subsection \<open>The backend operations the module calls\<close>

text \<open>
  \<open>array[...] = v\<close>: the shapes are checked first, then every element of the array is
  overwritten with the broadcast value, converted to the array's element type.
\<close>

definition setitem_ellipsis :: "ndarray \<Rightarrow> operand \<Rightarrow> outcome" where
  "setitem_ellipsis a v =
     (let w = v\<lparr>oshape := strip_unit_axes (length (shape a)) (oshape v)\<rparr>
      in if broadcastable (oshape w) (shape a)
         then (Inr (), a\<lparr>data := map (astype (dtype a)) (broadcast_to w (shape a))\<rparr>)
         else (Inl (ValueError ''could not broadcast input array''), a))"

text \<open>
  \<open>xp.identity(n)\<close>: the n-by-n float64 matrix with 1.0 on the main diagonal, 0.0
  elsewhere.
\<close>

definition xp_identity :: "device \<Rightarrow> nat \<Rightarrow> operand" where
  "xp_identity dev n =
     \<lparr>odevice = dev, oshape = [n, n],
      odata = map (\<lambda>k. if k div n = k mod n then Finite 1 else Finite 0) [0 ..< n * n]\<rparr>"

text \<open>
  \<open>v * scale\<close> for a float64 array \<open>v\<close> and a Python float: the float64 product, element
  by element. A Python float is a float64; the model reads \<open>scale\<close> as the float64 nearest
  to it.
\<close>

definition multiply :: "operand \<Rightarrow> scalar \<Rightarrow> operand" where
  "multiply v s =
     v\<lparr>odata := map (\<lambda>x. astype Float64 (multiply_scalar x (astype Float64 s))) (odata v)\<rparr>"

subsection \<open>Array objects and storage\<close>

text \<open>
  An initializer holds its fill value by reference, and the array behind the reference
  can share storage with the array the initializer is called on (\<open>t[::-1]\<close> is a view of
  \<open>t\<close>). The model has the two cases: an array with storage of its own, given by its
  value, and a view of the target of the call, given by its shape, the position of its
  first element in the target's elements, and the step of each of its axes. Reading the
  reference gives the array as it is at that moment.
\<close>

record view =
  vshape :: "nat list"
  voffset :: int
  vstrides :: "int list"

definition view_position :: "view \<Rightarrow> nat list \<Rightarrow> nat" where
  "view_position v idx = nat (voffset v + sum_list (map2 (\<lambda>i s. int i * s) idx (vstrides v)))"

datatype array_ref = Owned ndarray | TargetView view

fun read_array :: "ndarray \<Rightarrow> array_ref \<Rightarrow> ndarray" where
  "read_array target (Owned x) = x"
| "read_array target (TargetView v) =
     \<lparr>shape = vshape v, dtype = dtype target, device = device target,
      data = map (\<lambda>k. data target ! view_position v (unravel (vshape v) k))
        [0 ..< prod_list (vshape v)]\<rparr>"

subsection \<open>Python values\<close>

text \<open>
  \<open>fill_value\<close> is an arbitrary Python object; the model has the kinds the constructor's
  check tells apart. The type parameter is what stands for an array: a reference in the
  initializer, the array read from it in a call.
\<close>

datatype 'a pyvalue =
    PyNone
  | PyBool bool
  | PyInt int
  | PyFloat scalar
  | PyStr string
  | PyArray 'a

text \<open>
  \<open>numpy.isscalar\<close>: true for Python's numbers and booleans and also for text
  (numpy's documentation: \<open>isscalar('numpy')\<close> is \<open>True\<close>); false for \<open>None\<close> and
  for every array.
\<close>

fun isscalar :: "'a pyvalue \<Rightarrow> bool" where
  "isscalar (PyBool _) = True"
| "isscalar (PyInt _) = True"
| "isscalar (PyFloat _) = True"
| "isscalar (PyStr _) = True"
| "isscalar PyNone = False"
| "isscalar (PyArray _) = False"

text \<open>
  Modelled from the spec: \<open>isinstance(v, chainer.get_array_types())\<close>; the function
  \<open>get_array_types\<close> is not among the sources. The spec: the fill value is
  "an array-like of a type the system recognizes as a valid on-device numeric array".
\<close>

fun isinstance_array_types :: "'a pyvalue \<Rightarrow> bool" where
  "isinstance_array_types (PyArray _) = True"
| "isinstance_array_types _ = False"

text \<open>
  \<open>xp.asarray(v)\<close> for a value that is not an array gives an array of no axes holding
  \<open>v\<close>: a boolean as a boolean, an integer of at most 64 bits as that integer, a float
  as a float64. A larger integer is held as a Python object and becomes a float64 when
  it is assigned to a float array, which raises OverflowError where no float64 is near
  it. Text is converted when it is assigned; the conversion is the parameter \<open>parse\<close>
  (\<open>None\<close> where the text is not a number, when numpy raises ValueError). \<open>None\<close> cannot
  be converted (TypeError). The model reports the three errors at this place, which is
  the same statement of the source.
\<close>

fun xp_asarray ::
  "(string \<Rightarrow> scalar option) \<Rightarrow> device \<Rightarrow> ndarray pyvalue \<Rightarrow> error + operand" where
  "xp_asarray parse dev (PyBool b) =
     Inr \<lparr>odevice = dev, oshape = [], odata = [Finite (if b then 1 else 0)]\<rparr>"
| "xp_asarray parse dev (PyInt i) =
     (if - (2 ^ 63) \<le> i \<and> i < 2 ^ 64
      then Inr \<lparr>odevice = dev, oshape = [], odata = [Finite (of_int i)]\<rparr>
      else case astype Float64 (Finite (of_int i)) of
          Finite x \<Rightarrow> Inr \<lparr>odevice = dev, oshape = [], odata = [Finite x]\<rparr>
        | _ \<Rightarrow> Inl (OverflowError ''int too large to convert to float''))"
| "xp_asarray parse dev (PyFloat x) =
     Inr \<lparr>odevice = dev, oshape = [], odata = [astype Float64 x]\<rparr>"
| "xp_asarray parse dev (PyStr s) =
     (case parse s of
        None \<Rightarrow> Inl (ValueError ''could not convert string to float'')
      | Some x \<Rightarrow> Inr \<lparr>odevice = dev, oshape = [], odata = [x]\<rparr>)"
| "xp_asarray parse dev PyNone =
     Inl (TypeError ''float() argument must be a string or a real number'')"
| "xp_asarray parse dev (PyArray x) = Inr ((operand_of x)\<lparr>odevice := dev\<rparr>)"

text \<open>
  Modelled from the spec: \<open>backend.get_device_from_array\<close>, not among the sources:
  "a way to determine which device an array resides on".
\<close>

definition get_device_from_array :: "ndarray \<Rightarrow> device" where
  "get_device_from_array a = device a"

text \<open>
  Modelled from the spec: the transfer of an array to a device, which \<open>backend.copyto\<close>
  performs and which is not among the sources: "transferring data across devices as
  needed". The elements, the shape and the element type are those of the source.
\<close>

definition to_device :: "device \<Rightarrow> ndarray \<Rightarrow> ndarray" where
  "to_device dev x = x\<lparr>device := dev\<rparr>"

text \<open>
  Modelled from the spec: \<open>backend.copyto(dst, src)\<close>, not among the sources. The spec:
  "perform a device-aware copy into the target array, transferring data across devices
  as needed so the result lands correctly on the target array's device", by
  "a way to copy array contents across devices with correct broadcasting", while
  "shape and dtype of the array are never changed": the source is transferred and then
  assigned as every value is, converted to the target's element type. The source is
  read in full before the target is written.
\<close>

definition copyto :: "ndarray \<Rightarrow> ndarray \<Rightarrow> outcome" where
  "copyto dst src = setitem_ellipsis dst (operand_of (to_device (device dst) src))"

subsection \<open>The initializers\<close>

text \<open>
  Modelled from the spec: the base class \<open>initializer.Initializer\<close>, not among the
  sources: it "holds an optional expected dtype", which its constructor stores.
\<close>

record Initializer =
  self_dtype :: "dtype option"

record Identity = Initializer +
  scale :: scalar

record Constant = Initializer +
  fill_value :: "array_ref pyvalue"

text \<open>\<open>Identity.__init__(self, scale=1.0, dtype=None)\<close>\<close>

definition Identity_init :: "scalar \<Rightarrow> dtype option \<Rightarrow> Identity" where
  "Identity_init s dt = \<lparr>self_dtype = dt, scale = s\<rparr>"

text \<open>\<open>Identity.__call__(self, array)\<close>\<close>

definition Identity_call :: "Identity \<Rightarrow> ndarray \<Rightarrow> outcome" where
  "Identity_call self a =
     (if self_dtype self \<noteq> None \<and> Some (dtype a) \<noteq> self_dtype self
      then (Inl AssertionError, a)
      else if length (shape a) \<noteq> 2 \<or> shape a ! 0 \<noteq> shape a ! 1
      then (Inl (ValueError
        ''Identity matrix initialization can only be used for 2D squared matrices.''), a)
      else setitem_ellipsis a
        (multiply (xp_identity (get_device_from_array a) (shape a ! 0)) (scale self)))"

text \<open>
  \<open>_Constant.__init__(self, dtype=None)\<close>; \<open>fill_value\<close> is the attribute that the
  class or the subclass's constructor has set before.
\<close>

definition Constant_base_init :: "array_ref pyvalue \<Rightarrow> dtype option \<Rightarrow> error + Constant" where
  "Constant_base_init fv dt =
     (if \<not> (isinstance_array_types fv \<or> isscalar fv)
      then Inl (ValueError
        ''fill_value must be either scalar, numpy.ndarray, cupy.ndarray or chainerx.ndarray.'')
      else Inr \<lparr>self_dtype = dt, fill_value = fv\<rparr>)"

text \<open>
  \<open>_Constant.__call__(self, array)\<close>. The attribute \<open>self.fill_value\<close> is read at the
  call, an array as it is then; the case distinction is the \<open>isinstance\<close> test.
\<close>

definition Constant_base_call ::
  "(string \<Rightarrow> scalar option) \<Rightarrow> Constant \<Rightarrow> ndarray \<Rightarrow> outcome" where
  "Constant_base_call parse self a =
     (if self_dtype self \<noteq> None \<and> Some (dtype a) \<noteq> self_dtype self
      then (Inl AssertionError, a)
      else case map_pyvalue (read_array a) (fill_value self) of
        PyArray x \<Rightarrow> copyto a x
      | v \<Rightarrow> (case xp_asarray parse (get_device_from_array a) v of
           Inl e \<Rightarrow> (Inl e, a)
         | Inr w \<Rightarrow> setitem_ellipsis a w))"

text \<open>\<open>Constant.__init__(self, fill_value, dtype=None)\<close>\<close>

definition Constant_init :: "array_ref pyvalue \<Rightarrow> dtype option \<Rightarrow> error + Constant" where
  "Constant_init fv dt = Constant_base_init fv dt"

text \<open>\<open>Zero\<close>, \<open>One\<close> and \<open>NaN\<close> fix \<open>fill_value\<close> in the class body.\<close>

definition Zero_init :: "dtype option \<Rightarrow> error + Constant" where
  "Zero_init dt = Constant_base_init (PyFloat (Finite 0)) dt"

definition One_init :: "dtype option \<Rightarrow> error + Constant" where
  "One_init dt = Constant_base_init (PyFloat (Finite 1)) dt"

definition NaN_init :: "dtype option \<Rightarrow> error + Constant" where
  "NaN_init dt = Constant_base_init (PyFloat NotANumber) dt"

text \<open>
  The spec's reading of the constructor's check, "a plain numeric scalar", to compare
  with \<open>isscalar\<close>.
\<close>

fun spec_plain_numeric_scalar :: "'a pyvalue \<Rightarrow> bool" where
  "spec_plain_numeric_scalar (PyBool _) = True"
| "spec_plain_numeric_scalar (PyInt _) = True"
| "spec_plain_numeric_scalar (PyFloat _) = True"
| "spec_plain_numeric_scalar _ = False"

text \<open>The fill value is an array that shares storage with the target of the call.\<close>

fun shares_storage :: "array_ref pyvalue \<Rightarrow> bool" where
  "shares_storage (PyArray (TargetView _)) = True"
| "shares_storage _ = False"

subsection \<open>Arrays to call the initializers on, and how an outcome is read\<close>

text \<open>\<open>xp.full(shape, v)\<close> and \<open>xp.zeros(shape)\<close>: a new array with every element the same.\<close>

definition full :: "device \<Rightarrow> dtype \<Rightarrow> nat list \<Rightarrow> scalar \<Rightarrow> ndarray" where
  "full dev dt shp v =
     \<lparr>shape = shp, dtype = dt, device = dev, data = replicate (prod_list shp) (astype dt v)\<rparr>"

definition zeros :: "device \<Rightarrow> dtype \<Rightarrow> nat list \<Rightarrow> ndarray" where
  "zeros dev dt shp =
     \<lparr>shape = shp, dtype = dt, device = dev, data = replicate (prod_list shp) (Finite 0)\<rparr>"

abbreviation result_of :: "outcome \<Rightarrow> error + unit" where
  "result_of \<equiv> fst"

abbreviation array_after :: "outcome \<Rightarrow> ndarray" where
  "array_after \<equiv> snd"

section \<open>Indexing and broadcasting\<close>

lemma ravel_unravel: "k < prod_list ds \<Longrightarrow> ravel ds (unravel ds k) = k"
proof (induction ds arbitrary: k)
  case Nil
  then show ?case by simp
next
  case (Cons d ds)
  from Cons.prems have pos: "0 < prod_list ds"
    by (cases "prod_list ds = 0") auto
  then have "k mod prod_list ds < prod_list ds" by simp
  then have "ravel ds (unravel ds (k mod prod_list ds)) = k mod prod_list ds"
    by (rule Cons.IH)
  then show ?case by simp
qed

lemma in_range_unravel: "k < prod_list ds \<Longrightarrow> in_range ds (unravel ds k)"
proof (induction ds arbitrary: k)
  case Nil
  then show ?case by simp
next
  case (Cons d ds)
  from Cons.prems have pos: "0 < prod_list ds"
    by (cases "prod_list ds = 0") auto
  from Cons.prems have "k div prod_list ds < d"
    by (simp add: less_mult_imp_div_less)
  moreover have "in_range ds (unravel ds (k mod prod_list ds))"
    using pos by (intro Cons.IH) simp
  ultimately show ?case by simp
qed

lemma in_range_length: "in_range ds idx \<Longrightarrow> length idx = length ds"
  by (induction ds idx rule: in_range.induct) auto

lemma ravel_less: "in_range ds idx \<Longrightarrow> ravel ds idx < prod_list ds"
proof (induction ds idx rule: in_range.induct)
  case 1
  then show ?case by simp
next
  case (2 d ds i js)
  then have i: "i < d" and r: "ravel ds js < prod_list ds" by auto
  have "i * prod_list ds + ravel ds js < (i + 1) * prod_list ds"
    using r by simp
  also have "\<dots> \<le> d * prod_list ds"
    using i by (intro mult_le_mono1) simp
  finally show ?case by simp
qed auto

lemma unravel_ravel: "in_range ds idx \<Longrightarrow> unravel ds (ravel ds idx) = idx"
proof (induction ds idx rule: in_range.induct)
  case 1
  then show ?case by simp
next
  case (2 d ds i js)
  then have r: "ravel ds js < prod_list ds" by (auto intro: ravel_less)
  with 2 show ?case by simp
qed auto

lemma broadcast_index_same: "in_range ds idx \<Longrightarrow> broadcast_index ds idx = idx"
proof -
  have "in_range ds idx \<Longrightarrow> map2 (\<lambda>s i. if s = 1 then 0 else i) ds idx = idx"
    by (induction ds idx rule: in_range.induct) auto
  then show "in_range ds idx \<Longrightarrow> broadcast_index ds idx = idx"
    by (simp add: broadcast_index_def in_range_length)
qed

text \<open>A value of the target's own shape is copied element for element.\<close>

lemma broadcast_to_same:
  assumes "length (odata v) = prod_list (oshape v)"
  shows "broadcast_to v (oshape v) = odata v"
proof -
  have "map (\<lambda>k. odata v ! ravel (oshape v) (broadcast_index (oshape v) (unravel (oshape v) k)))
          [0 ..< prod_list (oshape v)] = map (\<lambda>k. odata v ! k) [0 ..< prod_list (oshape v)]"
    by (rule map_cong) (simp_all add: broadcast_index_same in_range_unravel ravel_unravel)
  also have "\<dots> = odata v"
    using assms by (metis map_nth)
  finally show ?thesis by (simp add: broadcast_to_def)
qed

text \<open>A value of no axes is repeated at every position.\<close>

lemma broadcast_to_scalar:
  assumes "oshape v = []" "odata v = [c]"
  shows "broadcast_to v dst = replicate (prod_list dst) c"
  using assms by (simp add: broadcast_to_def broadcast_index_def map_replicate_const)

lemma broadcastable_refl: "broadcastable ds ds"
  by (simp add: broadcastable_def list_all2_same)

lemma broadcastable_scalar: "broadcastable [] ds"
  by (simp add: broadcastable_def)

lemma getitem_broadcast:
  assumes "in_range dst idx"
  shows "broadcast_to v dst ! ravel dst idx =
           odata v ! ravel (oshape v) (broadcast_index (oshape v) idx)"
  using assms by (simp add: broadcast_to_def ravel_less unravel_ravel)

lemma length_broadcast_to: "length (broadcast_to v dst) = prod_list dst"
  by (simp add: broadcast_to_def)

section \<open>Conversion to an element type\<close>

lemma ulp_range: "min_ulp_exponent dt \<le> 0 \<and> 0 \<le> max_ulp_exponent dt"
  by (cases dt) (simp_all add: min_ulp_exponent_def max_ulp_exponent_def)

text \<open>An integer below \<open>2 ^ p\<close> in magnitude is a value of the format.\<close>

lemma representable_of_int:
  assumes "\<bar>m\<bar> < 2 ^ precision dt"
  shows "representable dt (of_int m)"
proof -
  have "(0::int) \<in> set [min_ulp_exponent dt .. max_ulp_exponent dt]"
    using ulp_range [of dt] by simp
  moreover have "\<bar>real_of_int m / 2 powi 0\<bar> < 2 ^ precision dt"
    using assms by (simp flip: of_int_abs add: of_int_less_numeral_power_cancel_iff)
  moreover have "of_int \<lfloor>real_of_int m / 2 powi 0\<rfloor> = real_of_int m / 2 powi 0"
    by simp
  ultimately show ?thesis
    unfolding representable_def list_ex_iff by blast
qed

lemma representable_numeral:
  "numeral k < (2::int) ^ precision dt \<Longrightarrow> representable dt (numeral k)"
  using representable_of_int [of "numeral k" dt] by simp

lemma representable_0: "representable dt 0"
  using representable_of_int [of 0 dt] by simp

lemma representable_1: "representable dt 1"
  using representable_of_int [of 1 dt] by (cases dt) simp_all

text \<open>A value of a narrower format is a value of float64.\<close>

lemma representable_Float64:
  assumes "representable dt r"
  shows "representable Float64 r"
proof -
  from assms obtain e where e: "min_ulp_exponent dt \<le> e" "e \<le> max_ulp_exponent dt"
    and q: "\<bar>r / 2 powi e\<bar> < 2 ^ precision dt" "of_int \<lfloor>r / 2 powi e\<rfloor> = r / 2 powi e"
    unfolding representable_def list_ex_iff by auto
  have "min_ulp_exponent Float64 \<le> e" "e \<le> max_ulp_exponent Float64"
    using e by (cases dt; simp add: min_ulp_exponent_def max_ulp_exponent_def)+
  moreover have "(2::real) ^ precision dt \<le> 2 ^ precision Float64"
    by (cases dt) simp_all
  then have "\<bar>r / 2 powi e\<bar> < 2 ^ precision Float64"
    using q(1) by linarith
  ultimately show ?thesis
    using q(2) unfolding representable_def list_ex_iff by auto
qed

text \<open>A value at or beyond twice the largest power of two of the format overflows.\<close>

lemma too_large:
  assumes "2 powi (int (precision dt) + max_ulp_exponent dt) \<le> \<bar>r\<bar>"
  shows "astype dt (Finite r) = overflow_to r"
proof -
  have big: "2 powi (int (precision dt) + e) \<le> \<bar>r\<bar>" if "e \<le> max_ulp_exponent dt" for e
  proof -
    have "(2::real) powi (int (precision dt) + e)
        \<le> 2 powi (int (precision dt) + max_ulp_exponent dt)"
      using that by (intro power_int_increasing) simp_all
    with assms show ?thesis by linarith
  qed
  have "\<not> \<bar>r / 2 powi e\<bar> < 2 ^ precision dt" if "e \<le> max_ulp_exponent dt" for e
  proof -
    have "2 ^ precision dt * 2 powi e \<le> \<bar>r\<bar>"
      using big [OF that] by (simp add: power_int_add)
    then have "2 ^ precision dt \<le> \<bar>r\<bar> / 2 powi e"
      by (simp add: pos_le_divide_eq)
    then show ?thesis by (simp add: abs_divide)
  qed
  then have nrep: "\<not> representable dt r"
    unfolding representable_def list_ex_iff by auto
  have "List.find (\<lambda>e. \<bar>r\<bar> < 2 powi (int (precision dt) + e))
      [min_ulp_exponent dt .. max_ulp_exponent dt] = None"
    unfolding find_None_iff using big by fastforce
  then show ?thesis
    using nrep by (simp add: round_nearest_even_def)
qed

lemma astype_exact: "holds_exactly dt x \<Longrightarrow> astype dt x = x"
  by (cases x) simp_all

lemma holds_exactly_Float64: "holds_exactly dt x \<Longrightarrow> holds_exactly Float64 x"
  by (cases x) (simp_all add: representable_Float64)

lemma astype_0: "astype dt (Finite 0) = Finite 0"
  by (simp add: representable_0)

lemma astype_1: "astype dt (Finite 1) = Finite 1"
  by (simp add: representable_1)

lemma astype_numeral:
  "numeral k < (2::int) ^ precision dt \<Longrightarrow> astype dt (Finite (numeral k)) = Finite (numeral k)"
  by (simp add: representable_numeral)

section \<open>Assignment\<close>

lemma strip_unit_axes_short: "length shp \<le> k \<Longrightarrow> strip_unit_axes k shp = shp"
  by (cases shp) simp_all

lemma setitem_same_shape:
  assumes "oshape v = shape a" and "length (odata v) = prod_list (oshape v)"
  shows "setitem_ellipsis a v = (Inr (), a\<lparr>data := map (astype (dtype a)) (odata v)\<rparr>)"
proof -
  have "v\<lparr>oshape := strip_unit_axes (length (shape a)) (oshape v)\<rparr> = v"
    using assms(1) by (simp add: strip_unit_axes_short)
  moreover have "broadcast_to v (shape a) = odata v"
    using broadcast_to_same [OF assms(2)] assms(1) by simp
  ultimately show ?thesis
    using assms(1) by (simp add: setitem_ellipsis_def broadcastable_refl)
qed

lemma setitem_scalar:
  assumes "oshape v = []" and "odata v = [c]"
  shows "setitem_ellipsis a v =
           (Inr (), a\<lparr>data := replicate (prod_list (shape a)) (astype (dtype a) c)\<rparr>)"
proof -
  let ?w = "v\<lparr>oshape := strip_unit_axes (length (shape a)) (oshape v)\<rparr>"
  have w: "oshape ?w = []" "odata ?w = [c]"
    using assms by simp_all
  then have "broadcast_to ?w (shape a) = replicate (prod_list (shape a)) c"
    by (rule broadcast_to_scalar)
  then have "map (astype (dtype a)) (broadcast_to ?w (shape a)) =
      replicate (prod_list (shape a)) (astype (dtype a) c)"
    by simp
  then show ?thesis
    using w(1) by (simp add: setitem_ellipsis_def Let_def broadcastable_scalar)
qed

lemma copyto_broadcast:
  assumes "broadcastable (shape x) (shape a)"
  shows "copyto a x =
    (Inr (), a\<lparr>data := map (astype (dtype a)) (broadcast_to (operand_of x) (shape a))\<rparr>)"
proof -
  let ?v = "operand_of (to_device (device a) x)"
  have len: "length (shape x) \<le> length (shape a)"
    using assms by (simp add: broadcastable_def)
  have "?v\<lparr>oshape := strip_unit_axes (length (shape a)) (oshape ?v)\<rparr> = ?v"
    using len by (simp add: operand_of_def to_device_def strip_unit_axes_short)
  moreover have "broadcast_to ?v (shape a) = broadcast_to (operand_of x) (shape a)"
    by (simp add: broadcast_to_def operand_of_def to_device_def)
  moreover have "oshape ?v = shape x"
    by (simp add: operand_of_def to_device_def)
  ultimately show ?thesis
    using assms by (simp add: copyto_def setitem_ellipsis_def)
qed

text \<open>The position that broadcasting reads lies in the source.\<close>

lemma in_range_drop: "in_range ds idx \<Longrightarrow> in_range (drop k ds) (drop k idx)"
proof (induction ds idx arbitrary: k rule: in_range.induct)
  case (2 d ds i js)
  then show ?case by (cases k) simp_all
qed simp_all

lemma in_range_broadcast:
  assumes "list_all2 (\<lambda>s d. s = d \<or> s = 1) src dst" and "in_range dst idx"
  shows "in_range src (map2 (\<lambda>s i. if s = 1 then 0 else i) src idx)"
  using assms
proof (induction src dst arbitrary: idx rule: list_all2_induct)
  case Nil
  then show ?case by (cases idx) simp_all
next
  case (Cons s src d dst)
  then show ?case by (cases idx) auto
qed

lemma in_range_broadcast_index:
  assumes "broadcastable src dst" and "in_range dst idx"
  shows "in_range src (broadcast_index src idx)"
proof -
  have len: "length idx = length dst"
    using assms(2) by (rule in_range_length)
  have "in_range (drop (length dst - length src) dst) (drop (length dst - length src) idx)"
    using assms(2) by (rule in_range_drop)
  then show ?thesis
    using assms(1) in_range_broadcast [of src "drop (length dst - length src) dst"]
    by (simp add: broadcastable_def broadcast_index_def len)
qed

section \<open>What the two calls compute\<close>

text \<open>The test of \<open>Identity.__call__\<close> fails exactly on the shapes \<open>(n, n)\<close>.\<close>

lemma square_shape_iff:
  "(length shp \<noteq> 2 \<or> shp ! 0 \<noteq> shp ! 1) = (\<not> (\<exists>n. shp = [n, n]))"
proof (cases shp)
  case Nil
  then show ?thesis by simp
next
  case (Cons r rest)
  note outer = this
  show ?thesis
  proof (cases rest)
    case Nil
    with outer show ?thesis by simp
  next
    case (Cons c rest')
    with outer show ?thesis by (cases rest') auto
  qed
qed

lemma Identity_call_square:
  assumes "shape a = [n, n]" and "self_dtype self = None \<or> self_dtype self = Some (dtype a)"
  shows "Identity_call self a =
    (Inr (), a\<lparr>data := map (\<lambda>k. astype (dtype a) (astype Float64 (multiply_scalar
       (if k div n = k mod n then Finite 1 else Finite 0) (astype Float64 (scale self)))))
       [0 ..< n * n]\<rparr>)"
proof -
  let ?v = "multiply (xp_identity (get_device_from_array a) n) (scale self)"
  have shp: "oshape ?v = shape a"
    using assms(1) by (simp add: multiply_def xp_identity_def)
  have len: "length (odata ?v) = prod_list (oshape ?v)"
    by (simp add: multiply_def xp_identity_def)
  have "setitem_ellipsis a ?v = (Inr (), a\<lparr>data := map (astype (dtype a)) (odata ?v)\<rparr>)"
    using shp len by (rule setitem_same_shape)
  moreover have "map (astype (dtype a)) (odata ?v) =
      map (\<lambda>k. astype (dtype a) (astype Float64 (multiply_scalar
        (if k div n = k mod n then Finite 1 else Finite 0) (astype Float64 (scale self)))))
        [0 ..< n * n]"
    by (simp add: multiply_def xp_identity_def)
  ultimately show ?thesis
    using assms by (auto simp: Identity_call_def)
qed

lemma Constant_call_scalar:
  assumes "self_dtype self = None \<or> self_dtype self = Some (dtype a)"
      and "xp_asarray parse (get_device_from_array a) (map_pyvalue (read_array a) (fill_value self)) =
             Inr \<lparr>odevice = dev, oshape = [], odata = [c]\<rparr>"
      and "\<not> isinstance_array_types (fill_value self)"
  shows "Constant_base_call parse self a =
           (Inr (), a\<lparr>data := replicate (prod_list (shape a)) (astype (dtype a) c)\<rparr>)"
proof -
  let ?w = "\<lparr>odevice = dev, oshape = [], odata = [c]\<rparr>"
  have "setitem_ellipsis a ?w =
      (Inr (), a\<lparr>data := replicate (prod_list (shape a)) (astype (dtype a) c)\<rparr>)"
    by (rule setitem_scalar) simp_all
  then show ?thesis
    using assms by (cases "fill_value self") (auto simp: Constant_base_call_def)
qed

lemma Constant_base_init_float:
  "Constant_base_init (PyFloat x) dt = Inr \<lparr>self_dtype = dt, fill_value = PyFloat x\<rparr>"
  by (simp add: Constant_base_init_def)

lemma Constant_call_float:
  assumes "dt = None \<or> dt = Some (dtype a)" and "holds_exactly (dtype a) x"
  shows "Constant_base_call parse \<lparr>self_dtype = dt, fill_value = PyFloat x\<rparr> a =
           (Inr (), a\<lparr>data := replicate (prod_list (shape a)) x\<rparr>)"
proof -
  have "astype Float64 x = x"
    using assms(2) by (intro astype_exact holds_exactly_Float64)
  moreover have "astype (dtype a) x = x"
    using assms(2) by (rule astype_exact)
  ultimately show ?thesis
    using assms(1)
      Constant_call_scalar [where self = "\<lparr>self_dtype = dt, fill_value = PyFloat x\<rparr>"
        and a = a and parse = parse and dev = "get_device_from_array a" and c = x]
    by simp
qed

text \<open>
  A call that returns has replaced the elements and nothing else; a second call of
  \<open>Identity\<close>, or of a constant initializer whose fill value shares no storage with the
  array, returns with the array the first call left.
\<close>

lemma length_setitem:
  "setitem_ellipsis a v = (Inr (), a') \<Longrightarrow>
     a' = a\<lparr>data := data a'\<rparr> \<and> length (data a') = prod_list (shape a)"
  by (auto simp: setitem_ellipsis_def Let_def length_broadcast_to split: if_splits)

lemma setitem_again:
  "setitem_ellipsis a v = (Inr (), a') \<Longrightarrow> setitem_ellipsis a' v = (Inr (), a')"
  by (auto simp: setitem_ellipsis_def Let_def split: if_splits)

lemma Identity_call_success:
  assumes "Identity_call si a = (Inr (), a')"
  shows "a' = a\<lparr>data := data a'\<rparr> \<and> length (data a') = prod_list (shape a) \<and>
         Identity_call si a' = (Inr (), a')"
proof -
  let ?v = "multiply (xp_identity (get_device_from_array a) (shape a ! 0)) (scale si)"
  from assms have ok: "\<not> (self_dtype si \<noteq> None \<and> Some (dtype a) \<noteq> self_dtype si)"
    "\<not> (length (shape a) \<noteq> 2 \<or> shape a ! 0 \<noteq> shape a ! 1)"
    and set: "setitem_ellipsis a ?v = (Inr (), a')"
    by (auto simp: Identity_call_def split: if_splits)
  from length_setitem [OF set]
  have frame: "a' = a\<lparr>data := data a'\<rparr>" "length (data a') = prod_list (shape a)"
    by simp_all
  have same: "shape a' = shape a" "dtype a' = dtype a" "device a' = device a"
    using frame(1) by (metis ndarray.select_convs(1) ndarray.surjective ndarray.update_convs(4),
      metis ndarray.select_convs(2) ndarray.surjective ndarray.update_convs(4),
      metis ndarray.select_convs(3) ndarray.surjective ndarray.update_convs(4))
  have "Identity_call si a' = setitem_ellipsis a' ?v"
    using ok same by (auto simp: Identity_call_def get_device_from_array_def)
  with setitem_again [OF set] frame show ?thesis by simp
qed

lemma Constant_call_frame:
  assumes "Constant_base_call parse sc a = (Inr (), a')"
  shows "a' = a\<lparr>data := data a'\<rparr> \<and> length (data a') = prod_list (shape a)"
proof -
  from assms obtain v where "setitem_ellipsis a v = (Inr (), a')"
    by (auto simp: Constant_base_call_def copyto_def split: if_splits pyvalue.splits sum.splits)
  then show ?thesis by (rule length_setitem)
qed

lemma Constant_call_again:
  assumes "\<not> shares_storage (fill_value sc)"
      and "Constant_base_call parse sc a = (Inr (), a')"
  shows "Constant_base_call parse sc a' = (Inr (), a')"
proof -
  from Constant_call_frame [OF assms(2)] have frame: "a' = a\<lparr>data := data a'\<rparr>"
    by simp
  have same: "dtype a' = dtype a" "device a' = device a"
    using frame by (metis ndarray.select_convs(2) ndarray.surjective ndarray.update_convs(4),
      metis ndarray.select_convs(3) ndarray.surjective ndarray.update_convs(4))
  have rd: "map_pyvalue (read_array a') (fill_value sc) =
      map_pyvalue (read_array a) (fill_value sc)"
  proof (cases "fill_value sc")
    case (PyArray ref)
    with assms(1) show ?thesis by (cases ref) simp_all
  qed simp_all
  from assms(2) obtain v where v: "setitem_ellipsis a v = (Inr (), a')"
    and again: "Constant_base_call parse sc a' = setitem_ellipsis a' v"
    using same rd
    by (auto simp: Constant_base_call_def copyto_def get_device_from_array_def
        split: if_splits pyvalue.splits sum.splits)
  from setitem_again [OF v] again show ?thesis by simp
qed

lemma setitem_not_assertion: "result_of (setitem_ellipsis a v) \<noteq> Inl AssertionError"
  by (simp add: setitem_ellipsis_def Let_def)

lemma xp_asarray_not_assertion: "xp_asarray parse dev v \<noteq> Inl AssertionError"
  by (cases v) (auto split: option.splits scalar.splits)

text \<open>Unfolding the model on a concrete call.\<close>

lemma astype_Float16_overflow: "65536 \<le> \<bar>r\<bar> \<Longrightarrow> astype Float16 (Finite r) = overflow_to r"
  using too_large [of Float16 r] by (simp add: max_ulp_exponent_def)

lemma astype_Float64_overflow: "2 ^ 1024 \<le> \<bar>r\<bar> \<Longrightarrow> astype Float64 (Finite r) = overflow_to r"
  using too_large [of Float64 r] by (simp add: max_ulp_exponent_def)

lemmas eval_defs = Identity_call_def Identity_init_def Constant_base_call_def Constant_init_def
  Constant_base_init_def Zero_init_def One_init_def NaN_init_def zeros_def full_def
  setitem_ellipsis_def Let_def broadcastable_def multiply_def xp_identity_def broadcast_to_def
  broadcast_index_def getitem_def get_device_from_array_def copyto_def to_device_def
  operand_of_def well_formed_def view_position_def overflow_to_def upt_rec
  astype_0 astype_1 astype_numeral

section \<open>The claims\<close>

subsection \<open>C1: Identity writes the scaled identity matrix\<close>

text \<open>
  C1, as amended. For every size \<open>n \<ge> 1\<close> and every finite scale \<open>r\<close> that the array's
  element type represents exactly, calling \<open>Identity(scale=r)\<close> on an n-by-n array of
  zeros returns, and afterwards the element at \<open>[i][j]\<close> is \<open>r\<close> where \<open>i = j\<close> and 0
  elsewhere.
\<close>

theorem Identity_call_finite_scale:
  assumes "0 < n" and "a = zeros dev dt [n, n]" and "representable dt r"
  shows "result_of (Identity_call (Identity_init (Finite r) None) a) = Inr () \<and>
         (\<forall>i<n. \<forall>j<n.
            getitem (array_after (Identity_call (Identity_init (Finite r) None) a)) [i, j] =
              (if i = j then Finite r else Finite 0))"
proof -
  let ?self = "Identity_init (Finite r) None"
  have shp: "shape a = [n, n]" and dt: "dtype a = dt"
    using assms(2) by (simp_all add: zeros_def)
  have r64: "astype Float64 (Finite r) = Finite r"
    using assms(3) by (simp add: representable_Float64)
  have rdt: "astype dt (Finite r) = Finite r"
    using assms(3) by simp
  have cell: "astype dt (astype Float64 (multiply_scalar
      (if k div n = k mod n then Finite 1 else Finite 0) (astype Float64 (Finite r)))) =
      (if k div n = k mod n then Finite r else Finite 0)" for k
    by (simp add: r64 rdt astype_0 del: astype.simps(1))
  have call: "Identity_call ?self a =
    (Inr (), a\<lparr>data := map (\<lambda>k. if k div n = k mod n then Finite r else Finite 0)
       [0 ..< n * n]\<rparr>)"
    using Identity_call_square [OF shp, of ?self] cell
    by (simp add: Identity_init_def dt del: astype.simps(1))
  have elem: "getitem (array_after (Identity_call ?self a)) [i, j] =
      (if i = j then Finite r else Finite 0)"
    if "i < n" "j < n" for i j
  proof -
    have "i * n + j < n * n"
    proof -
      have "i * n + j < (i + 1) * n" using that by simp
      also have "\<dots> \<le> n * n" using that by (intro mult_le_mono1) simp
      finally show ?thesis .
    qed
    moreover have "(i * n + j) div n = i" "(i * n + j) mod n = j"
      using that by simp_all
    ultimately show ?thesis
      using shp by (simp add: call getitem_def)
  qed
  show ?thesis using call elem by simp
qed

text \<open>The theorem at \<open>n = 2\<close>, \<open>r = 3\<close>, on a float32 array in host memory.\<close>

theorem Identity_call_finite_scale_witness:
  "(0::nat) < 2 \<and> representable Float32 3 \<and>
   result_of (Identity_call (Identity_init (Finite 3) None) (zeros CpuDevice Float32 [2, 2]))
     = Inr () \<and>
   getitem (array_after (Identity_call (Identity_init (Finite 3) None)
     (zeros CpuDevice Float32 [2, 2]))) [0, 0] = Finite 3 \<and>
   getitem (array_after (Identity_call (Identity_init (Finite 3) None)
     (zeros CpuDevice Float32 [2, 2]))) [0, 1] = Finite 0 \<and>
   getitem (array_after (Identity_call (Identity_init (Finite 3) None)
     (zeros CpuDevice Float32 [2, 2]))) [1, 0] = Finite 0 \<and>
   getitem (array_after (Identity_call (Identity_init (Finite 3) None)
     (zeros CpuDevice Float32 [2, 2]))) [1, 1] = Finite 3"
  using Identity_call_finite_scale [of 2 "zeros CpuDevice Float32 [2, 2]" CpuDevice Float32 3]
    representable_numeral [of "num.Bit1 num.One" Float32]
  by simp

text \<open>
  The claim as stated, for every scale, fails in two ways. With \<open>scale = float('inf')\<close>
  the call on a 2-by-2 float64 array of zeros returns, and the off-diagonal element
  \<open>[0][1]\<close> is \<open>0.0 * inf\<close>, which is NaN and not 0. With \<open>scale = 100000.0\<close> the call on a
  2-by-2 float16 array returns, and the diagonal element \<open>[0][0]\<close> is the float16 nearest
  to 100000, which is \<open>inf\<close>.
\<close>

theorem Identity_call_scale_counterexample:
  "result_of (Identity_call (Identity_init PosInf None) (zeros CpuDevice Float64 [2, 2]))
     = Inr () \<and>
   getitem (array_after (Identity_call (Identity_init PosInf None)
     (zeros CpuDevice Float64 [2, 2]))) [0, 1] = NotANumber \<and>
   getitem (array_after (Identity_call (Identity_init PosInf None)
     (zeros CpuDevice Float64 [2, 2]))) [0, 1] \<noteq> Finite 0 \<and>
   result_of (Identity_call (Identity_init (Finite 100000) None)
     (zeros CpuDevice Float16 [2, 2])) = Inr () \<and>
   getitem (array_after (Identity_call (Identity_init (Finite 100000) None)
     (zeros CpuDevice Float16 [2, 2]))) [0, 0] = PosInf \<and>
   getitem (array_after (Identity_call (Identity_init (Finite 100000) None)
     (zeros CpuDevice Float16 [2, 2]))) [0, 0] \<noteq> Finite 100000"
  by (simp add: eval_defs astype_Float16_overflow del: astype.simps(1))

subsection \<open>C2: Identity rejects an array that is not a square matrix\<close>

text \<open>
  C2. For every array whose shape is not \<open>(n, n)\<close> (fewer or more than two axes, or two
  axes of different lengths) and whose element type passes the initializer's declared
  one, if any, \<open>Identity.__call__\<close> raises ValueError with the message that names the
  constraint, and the array is as it was before the call.
\<close>

theorem Identity_call_rejects_non_square:
  assumes "\<not> (\<exists>n. shape a = [n, n])"
      and "self_dtype self = None \<or> self_dtype self = Some (dtype a)"
  shows "Identity_call self a =
    (Inl (ValueError
      ''Identity matrix initialization can only be used for 2D squared matrices.''), a)"
proof -
  from assms(1) have "length (shape a) \<noteq> 2 \<or> shape a ! 0 \<noteq> shape a ! 1"
    using square_shape_iff [of "shape a"] by blast
  with assms(2) show ?thesis
    by (auto simp: Identity_call_def)
qed

text \<open>A 2-by-3 array filled with the sentinel 7, and a declared element type that matches.\<close>

theorem Identity_call_rejects_non_square_witness:
  "\<not> (\<exists>n. shape (full CpuDevice Float32 [2, 3] (Finite 7)) = [n, n]) \<and>
   self_dtype (Identity_init (Finite 1) (Some Float32)) =
     Some (dtype (full CpuDevice Float32 [2, 3] (Finite 7))) \<and>
   Identity_call (Identity_init (Finite 1) (Some Float32))
       (full CpuDevice Float32 [2, 3] (Finite 7)) =
     (Inl (ValueError
       ''Identity matrix initialization can only be used for 2D squared matrices.''),
      full CpuDevice Float32 [2, 3] (Finite 7))"
  using Identity_call_rejects_non_square
    [of "full CpuDevice Float32 [2, 3] (Finite 7)" "Identity_init (Finite 1) (Some Float32)"]
  by (simp add: full_def Identity_init_def del: astype.simps(1))

subsection \<open>C3: the constructor's check of the fill value\<close>

text \<open>
  C3, as amended. Constructing a \<open>Constant\<close> raises ValueError, with no array involved,
  exactly when the fill value is neither a scalar in numpy's sense (a number, a boolean
  or a text) nor of an array type; otherwise the construction succeeds and the
  initializer holds the fill value and the declared element type.
\<close>

theorem Constant_init_accepts_iff:
  "(Constant_init fv dt = Inl (ValueError
      ''fill_value must be either scalar, numpy.ndarray, cupy.ndarray or chainerx.ndarray.''))
     = (\<not> isscalar fv \<and> \<not> isinstance_array_types fv) \<and>
   (Constant_init fv dt = Inr \<lparr>self_dtype = dt, fill_value = fv\<rparr>)
     = (isscalar fv \<or> isinstance_array_types fv) \<and>
   (\<forall>e. Constant_init fv dt = Inl e \<longrightarrow> \<not> isscalar fv \<and> \<not> isinstance_array_types fv) \<and>
   (\<forall>c. Constant_init fv dt = Inr c \<longrightarrow> isscalar fv \<or> isinstance_array_types fv)"
  by (auto simp: Constant_init_def Constant_base_init_def)

text \<open>\<open>Constant(None)\<close> raises; \<open>Constant(5)\<close> and \<open>Constant(x)\<close> for an array are built.\<close>

theorem Constant_init_accepts_iff_witness:
  "Constant_init PyNone None = Inl (ValueError
      ''fill_value must be either scalar, numpy.ndarray, cupy.ndarray or chainerx.ndarray.'') \<and>
   Constant_init (PyInt 5) (Some Float32) =
     Inr \<lparr>self_dtype = Some Float32, fill_value = PyInt 5\<rparr> \<and>
   Constant_init (PyArray (Owned (zeros CpuDevice Float32 [2]))) None =
     Inr \<lparr>self_dtype = None, fill_value = PyArray (Owned (zeros CpuDevice Float32 [2]))\<rparr>"
  using Constant_init_accepts_iff [of PyNone None]
    Constant_init_accepts_iff [of "PyInt 5" "Some Float32"]
    Constant_init_accepts_iff [of "PyArray (Owned (zeros CpuDevice Float32 [2]))" None]
  by simp

text \<open>
  The claim as stated fails at a text: \<open>'abc'\<close> is neither a number nor an array, and
  \<open>Constant('abc')\<close> is built without an error.
\<close>

theorem Constant_init_text_counterexample:
  "\<not> spec_plain_numeric_scalar (PyStr ''abc'' :: array_ref pyvalue) \<and>
   \<not> isinstance_array_types (PyStr ''abc'' :: array_ref pyvalue) \<and>
   Constant_init (PyStr ''abc'') None = Inr \<lparr>self_dtype = None, fill_value = PyStr ''abc''\<rparr>"
  by (simp add: Constant_init_def Constant_base_init_def)

subsection \<open>C4: a scalar fill value reaches every element\<close>

text \<open>
  C4, as amended. For an array of any shape, so of any number of axes, whose element
  type passes the declared one: a call with a float fill value \<open>c\<close>, or an integer one,
  that the array's element type represents exactly returns and leaves every element
  equal to it; \<open>Zero\<close>, \<open>One\<close> and \<open>NaN\<close> are built without an error, and their calls
  leave all zeros, all ones, and elements that all satisfy \<open>isnan\<close>, on an array of
  each of the floating-point element types.
\<close>

theorem Constant_call_fills_scalar:
  assumes "self_dtype self = None \<or> self_dtype self = Some (dtype a)"
      and "dt = None \<or> dt = Some (dtype a)"
  shows "(fill_value self = PyFloat c \<and> holds_exactly (dtype a) c \<longrightarrow>
            Constant_base_call parse self a =
              (Inr (), a\<lparr>data := replicate (prod_list (shape a)) c\<rparr>)) \<and>
         (fill_value self = PyInt i \<and> representable (dtype a) (of_int i) \<longrightarrow>
            Constant_base_call parse self a =
              (Inr (), a\<lparr>data := replicate (prod_list (shape a)) (Finite (of_int i))\<rparr>)) \<and>
         (\<exists>z. Zero_init dt = Inr z \<and>
            Constant_base_call parse z a =
              (Inr (), a\<lparr>data := replicate (prod_list (shape a)) (Finite 0)\<rparr>)) \<and>
         (\<exists>z. One_init dt = Inr z \<and>
            Constant_base_call parse z a =
              (Inr (), a\<lparr>data := replicate (prod_list (shape a)) (Finite 1)\<rparr>)) \<and>
         (\<exists>z a'. NaN_init dt = Inr z \<and>
            Constant_base_call parse z a = (Inr (), a') \<and>
            length (data a') = prod_list (shape a) \<and>
            (\<forall>x \<in> set (data a'). isnan x))"
proof -
  have float: "Constant_base_call parse self a =
      (Inr (), a\<lparr>data := replicate (prod_list (shape a)) c\<rparr>)"
    if fv: "fill_value self = PyFloat c" and ex: "holds_exactly (dtype a) c"
  proof -
    have "astype Float64 c = c"
      using ex by (intro astype_exact holds_exactly_Float64)
    moreover have "astype (dtype a) c = c"
      using ex by (rule astype_exact)
    ultimately show ?thesis
      using fv assms(1)
        Constant_call_scalar [where self = self and a = a and parse = parse
          and dev = "get_device_from_array a" and c = c]
      by simp
  qed
  have int: "Constant_base_call parse self a =
      (Inr (), a\<lparr>data := replicate (prod_list (shape a)) (Finite (of_int i))\<rparr>)"
    if fv: "fill_value self = PyInt i" and ex: "representable (dtype a) (of_int i)"
  proof -
    have "representable Float64 (of_int i)"
      using ex by (rule representable_Float64)
    then have "xp_asarray parse (get_device_from_array a) (PyInt i) =
        Inr \<lparr>odevice = get_device_from_array a, oshape = [], odata = [Finite (of_int i)]\<rparr>"
      by simp
    moreover have "astype (dtype a) (Finite (of_int i)) = Finite (of_int i)"
      using ex by simp
    ultimately show ?thesis
      using fv assms(1)
        Constant_call_scalar [where self = self and a = a and parse = parse
          and dev = "get_device_from_array a" and c = "Finite (of_int i)"]
      by simp
  qed
  have fixed: "\<exists>z. Constant_base_init (PyFloat x) dt = Inr z \<and>
      Constant_base_call parse z a =
        (Inr (), a\<lparr>data := replicate (prod_list (shape a)) x\<rparr>)"
    if "holds_exactly (dtype a) x" for x
    using Constant_call_float [OF assms(2) that] by (simp add: Constant_base_init_float)
  have nan: "\<exists>z a'. NaN_init dt = Inr z \<and>
      Constant_base_call parse z a = (Inr (), a') \<and>
      length (data a') = prod_list (shape a) \<and> (\<forall>x \<in> set (data a'). isnan x)"
    using Constant_call_float [OF assms(2), of NotANumber parse]
    by (simp add: NaN_init_def Constant_base_init_float)
  have "holds_exactly (dtype a) (Finite 0)" "holds_exactly (dtype a) (Finite 1)"
    by (simp_all add: representable_0 representable_1)
  then show ?thesis
    using float int fixed [of "Finite 0"] fixed [of "Finite 1"] nan
    by (simp add: Zero_init_def One_init_def)
qed

text \<open>
  \<open>Constant(5, dtype=float32)\<close> on a float32 array of shape \<open>(2, 1, 2)\<close> filled with 9.
\<close>

theorem Constant_call_fills_scalar_witness:
  "self_dtype \<lparr>self_dtype = Some Float32, fill_value = PyInt 5\<rparr> =
     Some (dtype (full CpuDevice Float32 [2, 1, 2] (Finite 9))) \<and>
   representable (dtype (full CpuDevice Float32 [2, 1, 2] (Finite 9))) (of_int 5) \<and>
   Constant_init (PyInt 5) (Some Float32) =
     Inr \<lparr>self_dtype = Some Float32, fill_value = PyInt 5\<rparr> \<and>
   Constant_base_call (\<lambda>s. None) \<lparr>self_dtype = Some Float32, fill_value = PyInt 5\<rparr>
       (full CpuDevice Float32 [2, 1, 2] (Finite 9)) =
     (Inr (), \<lparr>shape = [2, 1, 2], dtype = Float32, device = CpuDevice,
        data = [Finite 5, Finite 5, Finite 5, Finite 5]\<rparr>)"
  using Constant_call_fills_scalar
    [where self = "\<lparr>self_dtype = Some Float32, fill_value = PyInt 5\<rparr>"
       and a = "full CpuDevice Float32 [2, 1, 2] (Finite 9)" and dt = "Some Float32"
       and parse = "\<lambda>s. None" and i = 5 and c = "Finite 0"]
    representable_numeral [of "num.Bit1 (num.Bit0 num.One)" Float32]
  by (simp add: eval_defs del: astype.simps(1))

text \<open>
  The claim as stated fails at a fill value that the element type cannot hold:
  \<open>Constant(100000.0)\<close> on a float16 array leaves \<open>inf\<close> in every element, and
  \<open>Constant(10 ** 400)\<close> raises OverflowError and leaves the array as it was.
\<close>

theorem Constant_call_scalar_counterexample:
  "Constant_base_call (\<lambda>s. None) \<lparr>self_dtype = None, fill_value = PyFloat (Finite 100000)\<rparr>
       (zeros CpuDevice Float16 [2]) =
     (Inr (), \<lparr>shape = [2], dtype = Float16, device = CpuDevice, data = [PosInf, PosInf]\<rparr>) \<and>
   PosInf \<noteq> Finite 100000 \<and>
   Constant_init (PyInt (10 ^ 400)) None =
     Inr \<lparr>self_dtype = None, fill_value = PyInt (10 ^ 400)\<rparr> \<and>
   Constant_base_call (\<lambda>s. None) \<lparr>self_dtype = None, fill_value = PyInt (10 ^ 400)\<rparr>
       (zeros CpuDevice Float64 [2]) =
     (Inl (OverflowError ''int too large to convert to float''), zeros CpuDevice Float64 [2])"
proof -
  have "astype Float64 (Finite (real_of_int (10 ^ 400))) = PosInf"
    using astype_Float64_overflow [of "real_of_int (10 ^ 400)"] by (simp add: overflow_to_def)
  then show ?thesis
    by (simp add: eval_defs astype_Float16_overflow del: astype.simps(1))
qed

subsection \<open>C5: an array fill value is copied across devices\<close>

text \<open>
  C5, as amended, against \<open>copyto\<close> as modelled from the spec. For a fill value that is
  an array \<open>x\<close> with storage of its own whose shape broadcasts to the target's, on
  whatever device \<open>x\<close> resides, the call returns; the target keeps its device, shape and
  element type; its element at every position is the element of \<open>x\<close> at the position
  that broadcasting assigns to it, converted to the target's element type. Where the
  target's element type represents every element of \<open>x\<close> exactly, the elements are those
  of \<open>x\<close> themselves.
\<close>

theorem Constant_call_copies_array:
  assumes "self_dtype self = None \<or> self_dtype self = Some (dtype a)"
      and "fill_value self = PyArray (Owned x)"
      and "well_formed x"
      and "broadcastable (shape x) (shape a)"
  shows "\<exists>a'. Constant_base_call parse self a = (Inr (), a') \<and>
           device a' = device a \<and> shape a' = shape a \<and> dtype a' = dtype a \<and>
           (\<forall>idx. in_range (shape a) idx \<longrightarrow>
              getitem a' idx = astype (dtype a) (getitem x (broadcast_index (shape x) idx))) \<and>
           ((\<forall>v \<in> set (data x). holds_exactly (dtype a) v) \<longrightarrow>
              (\<forall>idx. in_range (shape a) idx \<longrightarrow>
                 getitem a' idx = getitem x (broadcast_index (shape x) idx)) \<and>
              (shape x = shape a \<longrightarrow> data a' = data x))"
proof -
  let ?b = "broadcast_to (operand_of x) (shape a)"
  let ?a' = "a\<lparr>data := map (astype (dtype a)) ?b\<rparr>"
  have call: "Constant_base_call parse self a = (Inr (), ?a')"
    using assms(1,2) copyto_broadcast [OF assms(4)] by (auto simp: Constant_base_call_def)
  have elem: "getitem ?a' idx = astype (dtype a) (getitem x (broadcast_index (shape x) idx))"
    if "in_range (shape a) idx" for idx
  proof -
    have "ravel (shape a) idx < length ?b"
      using that by (simp add: length_broadcast_to ravel_less)
    then have "getitem ?a' idx = astype (dtype a) (?b ! ravel (shape a) idx)"
      by (simp add: getitem_def del: astype.simps(1))
    also have "?b ! ravel (shape a) idx = getitem x (broadcast_index (shape x) idx)"
      using getitem_broadcast [OF that, of "operand_of x"]
      by (simp add: getitem_def operand_of_def)
    finally show ?thesis .
  qed
  have exact: "getitem ?a' idx = getitem x (broadcast_index (shape x) idx)"
    if all: "\<forall>v \<in> set (data x). holds_exactly (dtype a) v" and idx: "in_range (shape a) idx"
    for idx
  proof -
    have "in_range (shape x) (broadcast_index (shape x) idx)"
      using assms(4) idx by (rule in_range_broadcast_index)
    then have "ravel (shape x) (broadcast_index (shape x) idx) < length (data x)"
      using assms(3) by (simp add: well_formed_def ravel_less)
    then have "getitem x (broadcast_index (shape x) idx) \<in> set (data x)"
      by (simp add: getitem_def)
    with all have "holds_exactly (dtype a) (getitem x (broadcast_index (shape x) idx))"
      by blast
    then show ?thesis
      using elem [OF idx] by (simp add: astype_exact del: astype.simps(1))
  qed
  have same: "data ?a' = data x"
    if all: "\<forall>v \<in> set (data x). holds_exactly (dtype a) v" and shp: "shape x = shape a"
  proof -
    have "length (odata (operand_of x)) = prod_list (oshape (operand_of x))"
      using assms(3) by (simp add: well_formed_def operand_of_def)
    then have "broadcast_to (operand_of x) (oshape (operand_of x)) = odata (operand_of x)"
      by (rule broadcast_to_same)
    then have "?b = data x"
      using shp by (simp add: operand_of_def)
    moreover have "map (astype (dtype a)) (data x) = data x"
      using all by (intro map_idI) (simp add: astype_exact del: astype.simps(1))
    ultimately show ?thesis by simp
  qed
  show ?thesis
    using call elem exact same by (intro exI [of _ ?a']) simp
qed

text \<open>
  A float32 row \<open>[1, 2]\<close> held on a GPU, copied into a 2-by-2 float32 array in host
  memory: both rows of the target become \<open>[1, 2]\<close>, and the target stays in host memory.
\<close>

theorem Constant_call_copies_array_witness:
  "well_formed \<lparr>shape = [2], dtype = Float32, device = GpuDevice 0,
      data = [Finite 1, Finite 2]\<rparr> \<and>
   broadcastable [2] (shape (zeros CpuDevice Float32 [2, 2])) \<and>
   GpuDevice 0 \<noteq> device (zeros CpuDevice Float32 [2, 2]) \<and>
   holds_exactly Float32 (Finite 1) \<and> holds_exactly Float32 (Finite 2) \<and>
   Constant_base_call (\<lambda>s. None)
       \<lparr>self_dtype = None, fill_value = PyArray (Owned \<lparr>shape = [2], dtype = Float32,
          device = GpuDevice 0, data = [Finite 1, Finite 2]\<rparr>)\<rparr>
       (zeros CpuDevice Float32 [2, 2]) =
     (Inr (), \<lparr>shape = [2, 2], dtype = Float32, device = CpuDevice,
        data = [Finite 1, Finite 2, Finite 1, Finite 2]\<rparr>)"
  using Constant_call_copies_array
    [where self = "\<lparr>self_dtype = None, fill_value = PyArray (Owned \<lparr>shape = [2],
          dtype = Float32, device = GpuDevice 0, data = [Finite 1, Finite 2]\<rparr>)\<rparr>"
       and a = "zeros CpuDevice Float32 [2, 2]"
       and x = "\<lparr>shape = [2], dtype = Float32, device = GpuDevice 0,
          data = [Finite 1, Finite 2]\<rparr>"
       and parse = "\<lambda>s. None"]
    representable_1 [of Float32] representable_numeral [of "num.Bit0 num.One" Float32]
  by (simp add: eval_defs del: astype.simps(1))

text \<open>
  The claim as stated fails where the target's element type cannot hold a value of
  \<open>x\<close>: a float64 array \<open>[100000.0]\<close> held on a GPU, copied into a float16 array in host
  memory, leaves \<open>inf\<close>.
\<close>

theorem Constant_call_copies_array_counterexample:
  "well_formed \<lparr>shape = [1], dtype = Float64, device = GpuDevice 0,
      data = [Finite 100000]\<rparr> \<and>
   broadcastable [1] (shape (zeros CpuDevice Float16 [1])) \<and>
   Constant_base_call (\<lambda>s. None)
       \<lparr>self_dtype = None, fill_value = PyArray (Owned \<lparr>shape = [1], dtype = Float64,
          device = GpuDevice 0, data = [Finite 100000]\<rparr>)\<rparr>
       (zeros CpuDevice Float16 [1]) =
     (Inr (), \<lparr>shape = [1], dtype = Float16, device = CpuDevice, data = [PosInf]\<rparr>) \<and>
   [PosInf] \<noteq> [Finite 100000]"
  by (simp add: eval_defs astype_Float16_overflow del: astype.simps(1))

subsection \<open>C6: the declared element type is asserted\<close>

text \<open>
  C6. For \<open>Identity\<close> and for the constant initializers: when an element type was
  declared and the array's differs, the call fails with AssertionError, which is not the
  ValueError of a validation failure, and the array is untouched; when none was declared,
  or the array's is the declared one, the call does not fail with AssertionError.
\<close>

theorem call_asserts_declared_dtype:
  "(self_dtype si = Some d \<and> dtype a \<noteq> d \<longrightarrow>
      Identity_call si a = (Inl AssertionError, a)) \<and>
   (self_dtype sc = Some d \<and> dtype a \<noteq> d \<longrightarrow>
      Constant_base_call parse sc a = (Inl AssertionError, a)) \<and>
   (self_dtype si = None \<or> self_dtype si = Some (dtype a) \<longrightarrow>
      result_of (Identity_call si a) \<noteq> Inl AssertionError) \<and>
   (self_dtype sc = None \<or> self_dtype sc = Some (dtype a) \<longrightarrow>
      result_of (Constant_base_call parse sc a) \<noteq> Inl AssertionError)"
proof -
  have i1: "Identity_call si a = (Inl AssertionError, a)"
    if "self_dtype si = Some d" "dtype a \<noteq> d"
    using that by (auto simp: Identity_call_def)
  have c1: "Constant_base_call parse sc a = (Inl AssertionError, a)"
    if "self_dtype sc = Some d" "dtype a \<noteq> d"
    using that by (auto simp: Constant_base_call_def)
  have i2: "result_of (Identity_call si a) \<noteq> Inl AssertionError"
    if "self_dtype si = None \<or> self_dtype si = Some (dtype a)"
    using that setitem_not_assertion by (auto simp: Identity_call_def)
  have c2: "result_of (Constant_base_call parse sc a) \<noteq> Inl AssertionError"
    if ok: "self_dtype sc = None \<or> self_dtype sc = Some (dtype a)"
  proof -
    let ?v = "map_pyvalue (read_array a) (fill_value sc)"
    show ?thesis
    proof (cases "\<exists>x. ?v = PyArray x")
      case True
      then obtain x where "?v = PyArray x" by blast
      with ok show ?thesis
        using setitem_not_assertion [of a "operand_of (to_device (device a) x)"]
        by (auto simp: Constant_base_call_def copyto_def)
    next
      case False
      show ?thesis
      proof (cases "xp_asarray parse (get_device_from_array a) ?v")
        case (Inl e)
        then have "e \<noteq> AssertionError"
          using xp_asarray_not_assertion [of parse "get_device_from_array a" ?v] by auto
        with Inl False ok show ?thesis
          by (auto simp: Constant_base_call_def split: pyvalue.splits)
      next
        case (Inr w)
        with False ok show ?thesis
          using setitem_not_assertion [of a w]
          by (auto simp: Constant_base_call_def split: pyvalue.splits)
      qed
    qed
  qed
  show ?thesis using i1 c1 i2 c2 by blast
qed

text \<open>
  Initializers declared for float32, called on a float64 array (the assertion fails) and
  on a float32 array (it does not).
\<close>

theorem call_asserts_declared_dtype_witness:
  "dtype (zeros CpuDevice Float64 [2, 2]) \<noteq> Float32 \<and>
   Identity_call (Identity_init (Finite 1) (Some Float32)) (zeros CpuDevice Float64 [2, 2]) =
     (Inl AssertionError, zeros CpuDevice Float64 [2, 2]) \<and>
   Constant_base_call (\<lambda>s. None) \<lparr>self_dtype = Some Float32, fill_value = PyInt 5\<rparr>
       (zeros CpuDevice Float64 [2, 2]) =
     (Inl AssertionError, zeros CpuDevice Float64 [2, 2]) \<and>
   result_of (Identity_call (Identity_init (Finite 1) (Some Float32))
     (zeros CpuDevice Float32 [2, 2])) \<noteq> Inl AssertionError \<and>
   result_of (Constant_base_call (\<lambda>s. None) \<lparr>self_dtype = Some Float32, fill_value = PyInt 5\<rparr>
     (zeros CpuDevice Float32 [2, 2])) \<noteq> Inl AssertionError"
  using call_asserts_declared_dtype
    [where si = "Identity_init (Finite 1) (Some Float32)" and d = Float32
       and a = "zeros CpuDevice Float64 [2, 2]"
       and sc = "\<lparr>self_dtype = Some Float32, fill_value = PyInt 5\<rparr>" and parse = "\<lambda>s. None"]
    call_asserts_declared_dtype
    [where si = "Identity_init (Finite 1) (Some Float32)" and d = Float32
       and a = "zeros CpuDevice Float32 [2, 2]"
       and sc = "\<lparr>self_dtype = Some Float32, fill_value = PyInt 5\<rparr>" and parse = "\<lambda>s. None"]
  by (simp add: Identity_init_def zeros_def)

subsection \<open>C7: a call changes the elements only\<close>

text \<open>
  C7. Whenever a call of \<open>Identity\<close> or of a constant initializer returns, it returns
  \<open>None\<close>, and the array it leaves has the shape, the element type and the device it had
  before, with as many elements as its shape holds: it is the array before the call with
  its elements replaced.
\<close>

theorem call_preserves_shape_and_dtype:
  "(Identity_call si a = (Inr (), a') \<longrightarrow>
      shape a' = shape a \<and> dtype a' = dtype a \<and> device a' = device a \<and>
      length (data a') = prod_list (shape a) \<and> a' = a\<lparr>data := data a'\<rparr>) \<and>
   (Constant_base_call parse sc a = (Inr (), a'') \<longrightarrow>
      shape a'' = shape a \<and> dtype a'' = dtype a \<and> device a'' = device a \<and>
      length (data a'') = prod_list (shape a) \<and> a'' = a\<lparr>data := data a''\<rparr>)"
proof -
  have "shape a' = shape a \<and> dtype a' = dtype a \<and> device a' = device a \<and>
      length (data a') = prod_list (shape a) \<and> a' = a\<lparr>data := data a'\<rparr>"
    if h: "Identity_call si a = (Inr (), a')"
  proof -
    from Identity_call_success [OF h]
    have upd: "a' = a\<lparr>data := data a'\<rparr>" and len: "length (data a') = prod_list (shape a)"
      by simp_all
    have "shape (a\<lparr>data := data a'\<rparr>) = shape a" "dtype (a\<lparr>data := data a'\<rparr>) = dtype a"
      "device (a\<lparr>data := data a'\<rparr>) = device a" by simp_all
    with upd len show ?thesis by metis
  qed
  moreover have "shape a'' = shape a \<and> dtype a'' = dtype a \<and> device a'' = device a \<and>
      length (data a'') = prod_list (shape a) \<and> a'' = a\<lparr>data := data a''\<rparr>"
    if h: "Constant_base_call parse sc a = (Inr (), a'')"
  proof -
    from Constant_call_frame [OF h]
    have upd: "a'' = a\<lparr>data := data a''\<rparr>" and len: "length (data a'') = prod_list (shape a)"
      by simp_all
    have "shape (a\<lparr>data := data a''\<rparr>) = shape a" "dtype (a\<lparr>data := data a''\<rparr>) = dtype a"
      "device (a\<lparr>data := data a''\<rparr>) = device a" by simp_all
    with upd len show ?thesis by metis
  qed
  ultimately show ?thesis by blast
qed

text \<open>\<open>Identity(2.0)\<close> and \<open>Constant(5)\<close> on a 2-by-2 float32 array filled with 9.\<close>

theorem call_preserves_shape_and_dtype_witness:
  "Identity_call (Identity_init (Finite 2) None) (full CpuDevice Float32 [2, 2] (Finite 9)) =
     (Inr (), \<lparr>shape = [2, 2], dtype = Float32, device = CpuDevice,
        data = [Finite 2, Finite 0, Finite 0, Finite 2]\<rparr>) \<and>
   Constant_base_call (\<lambda>s. None) \<lparr>self_dtype = None, fill_value = PyInt 5\<rparr>
       (full CpuDevice Float32 [2, 2] (Finite 9)) =
     (Inr (), \<lparr>shape = [2, 2], dtype = Float32, device = CpuDevice,
        data = [Finite 5, Finite 5, Finite 5, Finite 5]\<rparr>) \<and>
   shape (full CpuDevice Float32 [2, 2] (Finite 9)) = [2, 2] \<and>
   dtype (full CpuDevice Float32 [2, 2] (Finite 9)) = Float32 \<and>
   device (full CpuDevice Float32 [2, 2] (Finite 9)) = CpuDevice"
  using call_preserves_shape_and_dtype
    [where si = "Identity_init (Finite 2) None" and a = "full CpuDevice Float32 [2, 2] (Finite 9)"
       and a' = "\<lparr>shape = [2, 2], dtype = Float32, device = CpuDevice,
          data = [Finite 2, Finite 0, Finite 0, Finite 2]\<rparr>"
       and sc = "\<lparr>self_dtype = None, fill_value = PyInt 5\<rparr>" and parse = "\<lambda>s. None"
       and a'' = "\<lparr>shape = [2, 2], dtype = Float32, device = CpuDevice,
          data = [Finite 5, Finite 5, Finite 5, Finite 5]\<rparr>"]
  by (simp add: eval_defs del: astype.simps(1))

subsection \<open>C8: a second call changes nothing\<close>

text \<open>
  C8, as amended. Whenever a call of \<open>Identity\<close>, or of a constant initializer whose
  fill value shares no storage with the array, returns, the same call on the array it
  left returns too and leaves that array as it is.
\<close>

theorem call_idempotent:
  "(Identity_call si a = (Inr (), a') \<longrightarrow> Identity_call si a' = (Inr (), a')) \<and>
   (\<not> shares_storage (fill_value sc) \<and> Constant_base_call parse sc a = (Inr (), a'') \<longrightarrow>
      Constant_base_call parse sc a'' = (Inr (), a''))"
  using Identity_call_success [of si a a'] Constant_call_again [of sc parse a a'']
  by blast

text \<open>
  \<open>Identity(2.0)\<close> and \<open>Constant(5)\<close> on a 2-by-2 float32 array filled with 9, repeated
  on the arrays they left.
\<close>

theorem call_idempotent_witness:
  "Identity_call (Identity_init (Finite 2) None) (full CpuDevice Float32 [2, 2] (Finite 9)) =
     (Inr (), \<lparr>shape = [2, 2], dtype = Float32, device = CpuDevice,
        data = [Finite 2, Finite 0, Finite 0, Finite 2]\<rparr>) \<and>
   Identity_call (Identity_init (Finite 2) None)
       \<lparr>shape = [2, 2], dtype = Float32, device = CpuDevice,
        data = [Finite 2, Finite 0, Finite 0, Finite 2]\<rparr> =
     (Inr (), \<lparr>shape = [2, 2], dtype = Float32, device = CpuDevice,
        data = [Finite 2, Finite 0, Finite 0, Finite 2]\<rparr>) \<and>
   \<not> shares_storage (fill_value \<lparr>self_dtype = None, fill_value = PyInt 5\<rparr>) \<and>
   Constant_base_call (\<lambda>s. None) \<lparr>self_dtype = None, fill_value = PyInt 5\<rparr>
       (full CpuDevice Float32 [2, 2] (Finite 9)) =
     (Inr (), \<lparr>shape = [2, 2], dtype = Float32, device = CpuDevice,
        data = [Finite 5, Finite 5, Finite 5, Finite 5]\<rparr>) \<and>
   Constant_base_call (\<lambda>s. None) \<lparr>self_dtype = None, fill_value = PyInt 5\<rparr>
       \<lparr>shape = [2, 2], dtype = Float32, device = CpuDevice,
        data = [Finite 5, Finite 5, Finite 5, Finite 5]\<rparr> =
     (Inr (), \<lparr>shape = [2, 2], dtype = Float32, device = CpuDevice,
        data = [Finite 5, Finite 5, Finite 5, Finite 5]\<rparr>)"
  using call_idempotent
    [where si = "Identity_init (Finite 2) None" and a = "full CpuDevice Float32 [2, 2] (Finite 9)"
       and a' = "\<lparr>shape = [2, 2], dtype = Float32, device = CpuDevice,
          data = [Finite 2, Finite 0, Finite 0, Finite 2]\<rparr>"
       and sc = "\<lparr>self_dtype = None, fill_value = PyInt 5\<rparr>" and parse = "\<lambda>s. None"
       and a'' = "\<lparr>shape = [2, 2], dtype = Float32, device = CpuDevice,
          data = [Finite 5, Finite 5, Finite 5, Finite 5]\<rparr>"]
  by (simp add: eval_defs del: astype.simps(1))

text \<open>
  The claim as stated fails where the fill value is a view of the array: with
  \<open>t = [1, 2]\<close> and \<open>Constant(t[::-1])\<close>, the first call on \<open>t\<close> leaves \<open>[2, 1]\<close> and the
  second call, which reads the view again, leaves \<open>[1, 2]\<close>.
\<close>

theorem call_twice_shared_storage_counterexample:
  "Constant_base_call (\<lambda>s. None)
       \<lparr>self_dtype = None,
        fill_value = PyArray (TargetView \<lparr>vshape = [2], voffset = 1, vstrides = [- 1]\<rparr>)\<rparr>
       \<lparr>shape = [2], dtype = Float64, device = CpuDevice, data = [Finite 1, Finite 2]\<rparr> =
     (Inr (), \<lparr>shape = [2], dtype = Float64, device = CpuDevice,
        data = [Finite 2, Finite 1]\<rparr>) \<and>
   Constant_base_call (\<lambda>s. None)
       \<lparr>self_dtype = None,
        fill_value = PyArray (TargetView \<lparr>vshape = [2], voffset = 1, vstrides = [- 1]\<rparr>)\<rparr>
       \<lparr>shape = [2], dtype = Float64, device = CpuDevice, data = [Finite 2, Finite 1]\<rparr> =
     (Inr (), \<lparr>shape = [2], dtype = Float64, device = CpuDevice,
        data = [Finite 1, Finite 2]\<rparr>) \<and>
   [Finite 1, Finite 2] \<noteq> [Finite 2, Finite (1::real)]"
  by (simp add: eval_defs del: astype.simps(1))

subsection \<open>C9: Identity asserts the element type before it checks the shape\<close>

text \<open>
  C9. For an \<open>Identity\<close> with a declared element type and an array that has another
  element type and is not a square matrix, the call fails with AssertionError and leaves
  the array as it was; it does not raise the ValueError of the shape check.
\<close>

theorem Identity_call_dtype_before_shape:
  assumes "self_dtype self = Some d" and "dtype a \<noteq> d" and "\<not> (\<exists>n. shape a = [n, n])"
  shows "Identity_call self a = (Inl AssertionError, a) \<and>
         (\<forall>msg. result_of (Identity_call self a) \<noteq> Inl (ValueError msg))"
  using assms(1,2) by (auto simp: Identity_call_def)

text \<open>\<open>Identity(dtype=float32)\<close> on a float64 array of shape \<open>(2, 3)\<close>.\<close>

theorem Identity_call_dtype_before_shape_witness:
  "self_dtype (Identity_init (Finite 1) (Some Float32)) = Some Float32 \<and>
   dtype (zeros CpuDevice Float64 [2, 3]) \<noteq> Float32 \<and>
   \<not> (\<exists>n. shape (zeros CpuDevice Float64 [2, 3]) = [n, n]) \<and>
   Identity_call (Identity_init (Finite 1) (Some Float32)) (zeros CpuDevice Float64 [2, 3]) =
     (Inl AssertionError, zeros CpuDevice Float64 [2, 3])"
  using Identity_call_dtype_before_shape
    [of "Identity_init (Finite 1) (Some Float32)" Float32 "zeros CpuDevice Float64 [2, 3]"]
  by (simp add: Identity_init_def zeros_def)

subsection \<open>C10: what Identity leaves does not depend on what the array held\<close>

text \<open>
  C10. For two arrays of one square shape, device and element type, whatever they hold,
  a call of one \<open>Identity\<close> has the same outcome on both; where it returns (as it does
  whenever the element type passes the declared one) it leaves the two arrays equal.
\<close>

theorem Identity_call_ignores_contents:
  assumes "shape a = [n, n]" and "shape b = [n, n]"
      and "dtype a = dtype b" and "device a = device b"
  shows "result_of (Identity_call self a) = result_of (Identity_call self b) \<and>
         (result_of (Identity_call self a) = Inr () \<longrightarrow>
            array_after (Identity_call self a) = array_after (Identity_call self b)) \<and>
         (self_dtype self = None \<or> self_dtype self = Some (dtype a) \<longrightarrow>
            result_of (Identity_call self a) = Inr ())"
proof (cases "self_dtype self = None \<or> self_dtype self = Some (dtype a)")
  case True
  then have tb: "self_dtype self = None \<or> self_dtype self = Some (dtype b)"
    using assms(3) by simp
  let ?d = "\<lambda>dt. map (\<lambda>k. astype dt (astype Float64 (multiply_scalar
    (if k div n = k mod n then Finite 1 else Finite 0) (astype Float64 (scale self)))))
    [0 ..< n * n]"
  have ca: "Identity_call self a = (Inr (), a\<lparr>data := ?d (dtype a)\<rparr>)"
    by (rule Identity_call_square [OF assms(1) True])
  have cb: "Identity_call self b = (Inr (), b\<lparr>data := ?d (dtype b)\<rparr>)"
    by (rule Identity_call_square [OF assms(2) tb])
  have "a\<lparr>data := ?d (dtype a)\<rparr> = b\<lparr>data := ?d (dtype b)\<rparr>"
    using assms by (cases a, cases b) simp
  with ca cb show ?thesis by simp
next
  case False
  then have "Identity_call self a = (Inl AssertionError, a)"
    "Identity_call self b = (Inl AssertionError, b)"
    using assms(3) by (auto simp: Identity_call_def)
  with False show ?thesis by simp
qed

text \<open>
  \<open>Identity(2.0)\<close> on a 2-by-2 array of zeros and on one filled with 7: both calls
  return and leave the same array.
\<close>

theorem Identity_call_ignores_contents_witness:
  "shape (zeros CpuDevice Float32 [2, 2]) = [2, 2] \<and>
   shape (full CpuDevice Float32 [2, 2] (Finite 7)) = [2, 2] \<and>
   data (zeros CpuDevice Float32 [2, 2]) \<noteq> data (full CpuDevice Float32 [2, 2] (Finite 7)) \<and>
   result_of (Identity_call (Identity_init (Finite 2) None) (zeros CpuDevice Float32 [2, 2]))
     = Inr () \<and>
   array_after (Identity_call (Identity_init (Finite 2) None) (zeros CpuDevice Float32 [2, 2])) =
     array_after (Identity_call (Identity_init (Finite 2) None)
       (full CpuDevice Float32 [2, 2] (Finite 7)))"
  using Identity_call_ignores_contents
    [of "zeros CpuDevice Float32 [2, 2]" 2 "full CpuDevice Float32 [2, 2] (Finite 7)"
        "Identity_init (Finite 2) None"]
  by (auto simp: Identity_init_def zeros_def full_def astype_numeral simp del: astype.simps(1))

end
